theory Spec2Isabelle
  imports Main
begin

section \<open>Python values and errors\<close>

text \<open>
  A Python \<open>str\<close> is modelled as the list of its UTF-8 bytes (\<open>string\<close>), which is what
  \<open>urllib.parse.quote\<close> works on. A Python \<open>float\<close> (an IEEE double) is kept as a
  mantissa and a binary exponent; the model never computes on it, it only carries it.
\<close>

datatype pyfloat = PyFloat int int

text \<open>Exceptions of the source and of the libraries it calls, as values.\<close>

datatype py_error =
    PyException string
  | Unavailable
  | RevenueCatError
  | TypeError
  | AttributeError
  | KeyError
  | ValueError
  | StopIteration
  | JSONDecodeError

text \<open>
  What \<open>response.json()\<close> returns and what \<open>json.dumps\<close> writes: a JSON document. A
  Python \<open>dict\<close> keeps insertion order, so an object is an association list.
\<close>

datatype json =
    JNull
  | JBool bool
  | JInt int
  | JFloat pyfloat
  | JStr string
  | JArr "json list"
  | JObj "(string \<times> json) list"

section \<open>enums.py\<close>

datatype AttributionSource =
  APPLE_SEARCH_ADS | ADJUST | APPSFLYER | BRANCH | TENJIN | FACEBOOK

datatype PaymentMode = PAY_AS_YOU_GO | PAY_UP_FRONT | FREE_TRIAL

datatype PeriodType = NORMAL | TRIAL | INTRO

datatype Platform = IOS | ANDROID | MAC_OS | UI_KIT_FOR_MAC

datatype PromotionDuration =
  DAILY | WEEKLY | MONTHLY | TWO_MONTH | THREE_MONTH | SIX_MONTH | YEARLY | LIFETIME

datatype Store = APP_STORE | MAC_APP_STORE | PLAY_STORE | STRIPE | PROMOTIONAL

datatype OwnershipType = PURCHASED | FAMILY_SHARED

text \<open>The members of each class in definition order, as iterating the class gives them.\<close>

definition Platform_members :: "Platform list" where
  "Platform_members = [IOS, ANDROID, MAC_OS, UI_KIT_FOR_MAC]"

definition PromotionDuration_members :: "PromotionDuration list" where
  "PromotionDuration_members =
     [DAILY, WEEKLY, MONTHLY, TWO_MONTH, THREE_MONTH, SIX_MONTH, YEARLY, LIFETIME]"

definition Store_members :: "Store list" where
  "Store_members = [APP_STORE, MAC_APP_STORE, PLAY_STORE, STRIPE, PROMOTIONAL]"

text \<open>The \<open>.value\<close> of a member: its wire string.\<close>

fun Platform_value :: "Platform \<Rightarrow> string" where
  "Platform_value IOS = ''ios''"
| "Platform_value ANDROID = ''android''"
| "Platform_value MAC_OS = ''macos''"
| "Platform_value UI_KIT_FOR_MAC = ''uikitformac''"

fun PromotionDuration_value :: "PromotionDuration \<Rightarrow> string" where
  "PromotionDuration_value DAILY = ''daily''"
| "PromotionDuration_value WEEKLY = ''weekly''"
| "PromotionDuration_value MONTHLY = ''monthly''"
| "PromotionDuration_value TWO_MONTH = ''two_month''"
| "PromotionDuration_value THREE_MONTH = ''three_month''"
| "PromotionDuration_value SIX_MONTH = ''six_month''"
| "PromotionDuration_value YEARLY = ''yearly''"
| "PromotionDuration_value LIFETIME = ''lifetime''"

fun Store_value :: "Store \<Rightarrow> string" where
  "Store_value APP_STORE = ''app_store''"
| "Store_value MAC_APP_STORE = ''mac_app_store''"
| "Store_value PLAY_STORE = ''play_store''"
| "Store_value STRIPE = ''stripe''"
| "Store_value PROMOTIONAL = ''promotional''"

text \<open>
  Calling an \<open>Enum\<close> class on a value (\<open>Platform("ios")\<close>) looks the value up among the
  members and raises \<open>ValueError\<close> when no member has it.
\<close>

fun enum_call :: "('a \<Rightarrow> string) \<Rightarrow> 'a list \<Rightarrow> string \<Rightarrow> py_error + 'a" where
  "enum_call val [] s = Inl ValueError"
| "enum_call val (m # ms) s = (if val m = s then Inr m else enum_call val ms s)"

definition Platform_call :: "string \<Rightarrow> py_error + Platform" where
  "Platform_call s = enum_call Platform_value Platform_members s"

definition PromotionDuration_call :: "string \<Rightarrow> py_error + PromotionDuration" where
  "PromotionDuration_call s = enum_call PromotionDuration_value PromotionDuration_members s"

definition Store_call :: "string \<Rightarrow> py_error + Store" where
  "Store_call s = enum_call Store_value Store_members s"

section \<open>utils.py\<close>

text \<open>
  \<open>urllib.parse.quote(value)\<close> with its defaults \<open>safe='/'\<close> and UTF-8: a byte that is a
  letter, a digit, one of \<open>_.-~\<close> or in \<open>safe\<close> is kept, every other byte becomes
  \<open>%XX\<close> with upper-case hexadecimal digits.
\<close>

definition always_safe :: "char \<Rightarrow> bool" where
  "always_safe c \<longleftrightarrow>
     c \<in> set ''ABCDEFGHIJKLMNOPQRSTUVWXYZabcdefghijklmnopqrstuvwxyz0123456789_.-~''"

definition hex_digit :: "nat \<Rightarrow> char" where
  "hex_digit n = char_of (if n < 10 then 48 + n else 55 + n)"

definition quote_byte :: "string \<Rightarrow> char \<Rightarrow> string" where
  "quote_byte safe c =
     (if always_safe c \<or> c \<in> set safe then [c]
      else [CHR ''%'', hex_digit (of_char c div 16), hex_digit (of_char c mod 16)])"

definition quote :: "string \<Rightarrow> string \<Rightarrow> string" where
  "quote safe s = concat (map (quote_byte safe) s)"

definition encode :: "string \<Rightarrow> string" where
  "encode v = quote ''/'' v"

text \<open>
  \<open>urllib.parse.unquote\<close>, the decoder of the encoding: \<open>%\<close> followed by two hexadecimal
  digits (either case) is one byte, anything else stands for itself.
\<close>

definition hex_value :: "char \<Rightarrow> nat option" where
  "hex_value c =
     (let n = (of_char c :: nat) in
      if 48 \<le> n \<and> n \<le> 57 then Some (n - 48)
      else if 65 \<le> n \<and> n \<le> 70 then Some (n - 55)
      else if 97 \<le> n \<and> n \<le> 102 then Some (n - 87)
      else None)"

fun unquote :: "string \<Rightarrow> string" where
  "unquote [] = []"
| "unquote (c # cs) =
     (if c = CHR ''%'' then
        (case cs of
           h # l # rest \<Rightarrow>
             (case hex_value h of
                None \<Rightarrow> c # unquote cs
              | Some a \<Rightarrow>
                  (case hex_value l of
                     None \<Rightarrow> c # unquote cs
                   | Some b \<Rightarrow> char_of (16 * a + b) # unquote rest))
         | _ \<Rightarrow> c # unquote cs)
      else c # unquote cs)"

text \<open>
  \<open>to_timestamp\<close>: \<open>value.timestamp() * 1000.0\<close>. Both the conversion of a naive
  \<open>datetime\<close> to POSIX seconds (it depends on the local time zone) and the multiplication
  of doubles belong to the platform; they are parameters. \<open>1000.0\<close> is \<open>125 * 2^3\<close>.
\<close>

record datetime =
  year :: nat
  month :: nat
  day :: nat
  hour :: nat
  minute :: nat
  second :: nat
  microsecond :: nat

definition to_timestamp ::
  "(datetime \<Rightarrow> pyfloat) \<Rightarrow> (pyfloat \<Rightarrow> pyfloat \<Rightarrow> pyfloat) \<Rightarrow> datetime \<Rightarrow> pyfloat" where
  "to_timestamp timestamp float_mul v = float_mul (timestamp v) (PyFloat 125 3)"

text \<open>\<open>a >= b\<close> on naive datetimes compares the fields from the year down.\<close>

fun fields_ge :: "nat list \<Rightarrow> nat list \<Rightarrow> bool" where
  "fields_ge (x # xs) (y # ys) = (y < x \<or> (x = y \<and> fields_ge xs ys))"
| "fields_ge xs ys = True"

definition datetime_fields :: "datetime \<Rightarrow> nat list" where
  "datetime_fields d = [year d, month d, day d, hour d, minute d, second d, microsecond d]"

definition datetime_ge :: "datetime \<Rightarrow> datetime \<Rightarrow> bool" where
  "datetime_ge a b = fields_ge (datetime_fields a) (datetime_fields b)"

section \<open>Python operations on parsed JSON\<close>

text \<open>Truth value of an object, as \<open>if x:\<close> tests it.\<close>

fun truthy :: "json \<Rightarrow> bool" where
  "truthy JNull = False"
| "truthy (JBool b) = b"
| "truthy (JInt i) = (i \<noteq> 0)"
| "truthy (JFloat (PyFloat m e)) = (m \<noteq> 0)"
| "truthy (JStr s) = (s \<noteq> [])"
| "truthy (JArr xs) = (xs \<noteq> [])"
| "truthy (JObj kvs) = (kvs \<noteq> [])"

text \<open>
  \<open>x[key]\<close> with a string key: a \<open>dict\<close> looks the key up (\<open>KeyError\<close> when it is
  missing), a \<open>list\<close> or a \<open>str\<close> accepts only integer indices, the other types are not
  subscriptable.
\<close>

fun py_getitem :: "json \<Rightarrow> string \<Rightarrow> py_error + json" where
  "py_getitem (JObj kvs) k = (case map_of kvs k of None \<Rightarrow> Inl KeyError | Some v \<Rightarrow> Inr v)"
| "py_getitem j k = Inl TypeError"

text \<open>
  \<open>iter(x)\<close>, as the items it yields: the keys of a \<open>dict\<close>, the elements of a
  \<open>list\<close>, the characters of a \<open>str\<close>; the other types are not iterable.
\<close>

fun py_iter :: "json \<Rightarrow> py_error + json list" where
  "py_iter (JObj kvs) = Inr (map (\<lambda>kv. JStr (fst kv)) kvs)"
| "py_iter (JArr xs) = Inr xs"
| "py_iter (JStr s) = Inr (map (\<lambda>c. JStr [c]) s)"
| "py_iter j = Inl TypeError"

text \<open>\<open>next(it)\<close> on a fresh iterator.\<close>

fun py_next :: "json list \<Rightarrow> py_error + json" where
  "py_next [] = Inl StopIteration"
| "py_next (x # xs) = Inr x"

text \<open>
  \<open>x.expires_date\<close>: none of the types that \<open>response.json()\<close> produces
  (\<open>NoneType\<close>, \<open>bool\<close>, \<open>int\<close>, \<open>float\<close>, \<open>str\<close>, \<open>list\<close>, \<open>dict\<close>) has an
  attribute of that name.
\<close>

fun getattr_expires_date :: "json \<Rightarrow> py_error + json" where
  "getattr_expires_date JNull = Inl AttributeError"
| "getattr_expires_date (JBool b) = Inl AttributeError"
| "getattr_expires_date (JInt i) = Inl AttributeError"
| "getattr_expires_date (JFloat f) = Inl AttributeError"
| "getattr_expires_date (JStr s) = Inl AttributeError"
| "getattr_expires_date (JArr xs) = Inl AttributeError"
| "getattr_expires_date (JObj kvs) = Inl AttributeError"

section \<open>response.py\<close>

text \<open>
  A \<open>NamedTuple\<close> stores whatever it is given: the annotations are not checked and nothing
  is converted, so every field holds the parsed JSON value it was constructed from.
  \<open>Entitlement\<close>, \<open>Subscription\<close> and \<open>NonSubscription\<close> are declared in the source
  and constructed nowhere.
\<close>

record SubscriberAttribute =
  attr_value :: string
  updated_at_ms :: int

record Subscriber =
  original_app_user_id :: json
  original_application_version :: json
  first_seen :: json
  last_seen :: json
  management_url :: json
  original_purchase_date :: json
  other_purchases :: json
  entitlements :: json
  subscriptions :: json
  non_subscriptions :: json
  subscriber_attributes :: json

record Package =
  package_identifier :: json
  platform_product_identifier :: json

record Offering =
  description :: json
  offering_identifier :: json
  packages :: "Package list"

record Offerings =
  current_offering_id :: json
  offerings :: "Offering list"

text \<open>
  \<open>Cls(**kw)\<close>: every keyword must name a field and every field without a default must be
  given, else \<open>TypeError\<close>.
\<close>

definition kwargs_ok :: "string list \<Rightarrow> string list \<Rightarrow> (string \<times> json) list \<Rightarrow> bool" where
  "kwargs_ok required optional kw \<longleftrightarrow>
     list_all (\<lambda>k. k \<in> set required \<or> k \<in> set optional) (map fst kw) \<and>
     list_all (\<lambda>k. k \<in> set (map fst kw)) required"

definition kwarg :: "(string \<times> json) list \<Rightarrow> string \<Rightarrow> json" where
  "kwarg kw k = (case map_of kw k of None \<Rightarrow> JNull | Some v \<Rightarrow> v)"

definition Subscriber_required :: "string list" where
  "Subscriber_required =
     [''original_app_user_id'', ''original_application_version'', ''first_seen'',
      ''last_seen'', ''management_url'', ''original_purchase_date'', ''other_purchases'',
      ''entitlements'', ''subscriptions'', ''non_subscriptions'']"

section \<open>Values handed to \<open>json.dumps\<close> and to the session\<close>

text \<open>
  A payload is built from the arguments of an operation, so besides the JSON-like types
  it can hold a tuple (a \<open>NamedTuple\<close> instance is one) or a member of an \<open>Enum\<close>
  class of enums.py. None of these classes derives from \<open>str\<close> or \<open>int\<close>.
\<close>

datatype pyval =
    PNone
  | PBool bool
  | PInt int
  | PFloat pyfloat
  | PStr string
  | PList "pyval list"
  | PTuple "pyval list"
  | PDict "(string \<times> pyval) list"
  | PPlatform Platform
  | PPaymentMode PaymentMode
  | PPromotionDuration PromotionDuration
  | PAttributionSource AttributionSource

text \<open>The first error of a sequence of results, else all the values.\<close>

fun collect :: "('e + 'a) list \<Rightarrow> 'e + 'a list" where
  "collect [] = Inr []"
| "collect (r # rs) =
     (case r of
        Inl e \<Rightarrow> Inl e
      | Inr x \<Rightarrow> (case collect rs of Inl e \<Rightarrow> Inl e | Inr xs \<Rightarrow> Inr (x # xs)))"

text \<open>
  \<open>json.dumps\<close>, up to the layout of the text: \<open>None\<close> is written as \<open>null\<close>, a list
  or tuple as an array, a \<open>dict\<close> as an object in insertion order; an object of any
  other class raises \<open>TypeError\<close> (not JSON serializable).
\<close>

fun json_dumps :: "pyval \<Rightarrow> py_error + json" where
  "json_dumps PNone = Inr JNull"
| "json_dumps (PBool b) = Inr (JBool b)"
| "json_dumps (PInt i) = Inr (JInt i)"
| "json_dumps (PFloat f) = Inr (JFloat f)"
| "json_dumps (PStr s) = Inr (JStr s)"
| "json_dumps (PList xs) =
     (case collect (map json_dumps xs) of Inl e \<Rightarrow> Inl e | Inr js \<Rightarrow> Inr (JArr js))"
| "json_dumps (PTuple xs) =
     (case collect (map json_dumps xs) of Inl e \<Rightarrow> Inl e | Inr js \<Rightarrow> Inr (JArr js))"
| "json_dumps (PDict kvs) =
     (case collect (map (\<lambda>kv. json_dumps (snd kv)) kvs) of
        Inl e \<Rightarrow> Inl e
      | Inr js \<Rightarrow> Inr (JObj (zip (map fst kvs) js)))"
| "json_dumps (PPlatform m) = Inl TypeError"
| "json_dumps (PPaymentMode m) = Inl TypeError"
| "json_dumps (PPromotionDuration m) = Inl TypeError"
| "json_dumps (PAttributionSource m) = Inl TypeError"

text \<open>Arguments as Python objects: an omitted optional argument is \<open>None\<close>.\<close>

definition py_opt :: "('a \<Rightarrow> pyval) \<Rightarrow> 'a option \<Rightarrow> pyval" where
  "py_opt f x = (case x of None \<Rightarrow> PNone | Some v \<Rightarrow> f v)"

definition py_attribute :: "SubscriberAttribute \<Rightarrow> pyval" where
  "py_attribute a = PTuple [PStr (attr_value a), PInt (updated_at_ms a)]"

definition py_attributes :: "(string \<times> SubscriberAttribute) list \<Rightarrow> pyval" where
  "py_attributes attrs = PDict (map (\<lambda>kv. (fst kv, py_attribute (snd kv))) attrs)"

text \<open>\<open>str(b).lower()\<close> for a \<open>bool\<close>.\<close>

definition str_lower_bool :: "bool \<Rightarrow> string" where
  "str_lower_bool b = (if b then ''true'' else ''false'')"

section \<open>client.py: the session and \<open>make_request\<close>\<close>

record Client =
  public_key :: "string option"
  secret_key :: "string option"

definition Client_init :: "string option \<Rightarrow> string option \<Rightarrow> py_error + Client" where
  "Client_init pk sk =
     (if pk = None \<and> sk = None
      then Inl (PyException ''Either public key or secret key must be set'')
      else Inr \<lparr>public_key = pk, secret_key = sk\<rparr>)"

definition base_api_url :: string where
  "base_api_url = ''https://api.revenuecat.com/v1''"

text \<open>The keyword arguments of \<open>session.request\<close>.\<close>

record request =
  req_method :: string
  req_url :: string
  req_headers :: "(string \<times> pyval) list"
  req_data :: "json option"
  req_timeout :: nat

text \<open>
  What the call gives back. \<open>json_body\<close> is what \<open>response.json()\<close> returns;
  \<open>None\<close> stands for a body that is not a JSON document, on which it raises.
  The session is a parameter \<open>session_request\<close> of the model: it stands for all of
  \<open>session.request\<close>, the library's own validation of its arguments included (a header
  value that is neither \<open>str\<close> nor \<open>bytes\<close> is such an "other" exception).
\<close>

record response =
  status_code :: nat
  json_body :: "json option"

datatype transport_result =
    RaisedConnectionError
  | RaisedTimeout
  | RaisedOther
  | Returned response

text \<open>\<open>response.raise_for_status()\<close> raises \<open>HTTPError\<close> for a 4xx or 5xx status.\<close>

definition raise_for_status :: "response \<Rightarrow> bool" where
  "raise_for_status r \<longleftrightarrow> 400 \<le> status_code r \<and> status_code r < 600"

text \<open>\<open>headers.update({k: v})\<close> on a \<open>dict\<close>.\<close>

definition dict_update :: "(string \<times> 'v) list \<Rightarrow> string \<Rightarrow> 'v \<Rightarrow> (string \<times> 'v) list" where
  "dict_update d k v =
     (if k \<in> set (map fst d) then map (\<lambda>kv. if fst kv = k then (k, v) else kv) d
      else d @ [(k, v)])"

text \<open>
  \<open>make_request\<close>. The result is paired with the requests that reached the session, in
  order: none when the call fails before the \<open>try\<close>, one otherwise.
\<close>

definition make_request ::
  "(request \<Rightarrow> transport_result) \<Rightarrow> Client \<Rightarrow> string \<Rightarrow> string \<Rightarrow> pyval \<Rightarrow> pyval \<Rightarrow>
   string option \<Rightarrow> nat \<Rightarrow> (py_error + json) \<times> request list" where
  "make_request session_request self method path payload platform key timeout =
     (let url = base_api_url @ encode path in
      case (if payload \<noteq> PNone then map_sum id Some (json_dumps payload) else Inr None) of
        Inl e \<Rightarrow> (Inl e, [])
      | Inr data \<Rightarrow>
          (let headers = (if platform \<noteq> PNone then dict_update [] ''X-Platform'' platform else [])
           in case (case key of
                      None \<Rightarrow> Inr headers
                    | Some k \<Rightarrow>
                        (case (if k = ''public'' then public_key self else secret_key self) of
                           None \<Rightarrow>
                             Inl (PyException
                                    (''This functionality requires '' @ k @ '' key to be set''))
                         | Some token \<Rightarrow>
                             Inr (dict_update headers ''Authorization''
                                    (PStr (''Bearer '' @ token))))) of
                Inl e \<Rightarrow> (Inl e, [])
              | Inr headers' \<Rightarrow>
                  (let req = \<lparr>req_method = method, req_url = url, req_headers = headers',
                               req_data = data, req_timeout = timeout\<rparr>
                   in (case session_request req of
                         RaisedConnectionError \<Rightarrow> Inl Unavailable
                       | RaisedTimeout \<Rightarrow> Inl Unavailable
                       | RaisedOther \<Rightarrow> Inl RevenueCatError
                       | Returned resp \<Rightarrow>
                           (if raise_for_status resp then Inl RevenueCatError
                            else (case json_body resp of
                                    None \<Rightarrow> Inl JSONDecodeError
                                  | Some j \<Rightarrow> Inr j)),
                       [req]))))"

text \<open>Continue with the body of a successful call; an exception passes through.\<close>

definition and_then ::
  "(py_error + 'a) \<times> request list \<Rightarrow> ('a \<Rightarrow> py_error + 'b) \<Rightarrow> (py_error + 'b) \<times> request list" where
  "and_then r f = (case fst r of Inl e \<Rightarrow> (Inl e, snd r) | Inr v \<Rightarrow> (f v, snd r))"

section \<open>client.py: response mapping\<close>

text \<open>\<open>Subscriber(**data)\<close>: \<open>**\<close> needs a mapping.\<close>

definition generate_subscriber_response :: "json \<Rightarrow> py_error + Subscriber" where
  "generate_subscriber_response data =
     (case data of
        JObj kw \<Rightarrow>
          (if kwargs_ok Subscriber_required [''subscriber_attributes''] kw then
             Inr \<lparr>original_app_user_id = kwarg kw ''original_app_user_id'',
                  original_application_version = kwarg kw ''original_application_version'',
                  first_seen = kwarg kw ''first_seen'',
                  last_seen = kwarg kw ''last_seen'',
                  management_url = kwarg kw ''management_url'',
                  original_purchase_date = kwarg kw ''original_purchase_date'',
                  other_purchases = kwarg kw ''other_purchases'',
                  entitlements = kwarg kw ''entitlements'',
                  subscriptions = kwarg kw ''subscriptions'',
                  non_subscriptions = kwarg kw ''non_subscriptions'',
                  subscriber_attributes = kwarg kw ''subscriber_attributes''\<rparr>
           else Inl TypeError)
      | _ \<Rightarrow> Inl TypeError)"

text \<open>\<open>Package(**p)\<close>.\<close>

definition Package_new :: "json \<Rightarrow> py_error + Package" where
  "Package_new p =
     (case p of
        JObj kw \<Rightarrow>
          (if kwargs_ok [''identifier'', ''platform_product_identifier''] [] kw then
             Inr \<lparr>package_identifier = kwarg kw ''identifier'',
                  platform_product_identifier = kwarg kw ''platform_product_identifier''\<rparr>
           else Inl TypeError)
      | _ \<Rightarrow> Inl TypeError)"

text \<open>
  \<open>Offering(**o, packages=packages)\<close>: a key \<open>packages\<close> in \<open>o\<close> gives the keyword
  twice, which is a \<open>TypeError\<close> as well.
\<close>

definition Offering_new :: "json \<Rightarrow> Package list \<Rightarrow> py_error + Offering" where
  "Offering_new o' pkgs =
     (case o' of
        JObj kw \<Rightarrow>
          (if ''packages'' \<in> set (map fst kw) then Inl TypeError
           else if kwargs_ok [''description'', ''identifier''] [] kw then
             Inr \<lparr>description = kwarg kw ''description'',
                  offering_identifier = kwarg kw ''identifier'',
                  packages = pkgs\<rparr>
           else Inl TypeError)
      | _ \<Rightarrow> Inl TypeError)"

text \<open>The inner loop: \<open>for p in ...: packages.append(Package(**p))\<close>.\<close>

fun packages_loop :: "json list \<Rightarrow> py_error + Package list" where
  "packages_loop [] = Inr []"
| "packages_loop (p # ps) =
     (case Package_new p of
        Inl e \<Rightarrow> Inl e
      | Inr x \<Rightarrow> (case packages_loop ps of Inl e \<Rightarrow> Inl e | Inr xs \<Rightarrow> Inr (x # xs)))"

text \<open>
  The outer loop over the items of \<open>data["offerings"]\<close>. Each round evaluates
  \<open>data["offerings"]["packages"]\<close> anew, as the source does.
\<close>

fun offerings_loop :: "json \<Rightarrow> json list \<Rightarrow> py_error + Offering list" where
  "offerings_loop data [] = Inr []"
| "offerings_loop data (o' # os) =
     (case py_getitem data ''offerings'' of
        Inl e \<Rightarrow> Inl e
      | Inr offs \<Rightarrow>
     (case py_getitem offs ''packages'' of
        Inl e \<Rightarrow> Inl e
      | Inr pk \<Rightarrow>
     (case py_iter pk of
        Inl e \<Rightarrow> Inl e
      | Inr ps \<Rightarrow>
     (case packages_loop ps of
        Inl e \<Rightarrow> Inl e
      | Inr pkgs \<Rightarrow>
     (case Offering_new o' pkgs of
        Inl e \<Rightarrow> Inl e
      | Inr off \<Rightarrow>
     (case offerings_loop data os of
        Inl e \<Rightarrow> Inl e
      | Inr rest \<Rightarrow> Inr (off # rest)))))))"

definition generate_offerings_response :: "json \<Rightarrow> py_error + Offerings" where
  "generate_offerings_response data =
     (case py_getitem data ''offerings'' of
        Inl e \<Rightarrow> Inl e
      | Inr offs \<Rightarrow>
     (case py_iter offs of
        Inl e \<Rightarrow> Inl e
      | Inr items \<Rightarrow>
     (case offerings_loop data items of
        Inl e \<Rightarrow> Inl e
      | Inr os \<Rightarrow>
     (case py_getitem data ''current_offering_id'' of
        Inl e \<Rightarrow> Inl e
      | Inr cur \<Rightarrow> Inr \<lparr>current_offering_id = cur, offerings = os\<rparr>))))"

text \<open>
  A method of \<open>Client\<close> called by name on the parsed body. Of the methods that turn a body
  into \<open>Offerings\<close> the class defines \<open>generate_offerings_response\<close> only; looking up a
  name that the class does not define raises \<open>AttributeError\<close>.
\<close>

definition Client_offerings_method :: "string \<Rightarrow> json \<Rightarrow> py_error + Offerings" where
  "Client_offerings_method name data =
     (if name = ''generate_offerings_response'' then generate_offerings_response data
      else Inl AttributeError)"

section \<open>client.py: the operations\<close>

definition get_subscriber_info ::
  "(request \<Rightarrow> transport_result) \<Rightarrow> Client \<Rightarrow> string \<Rightarrow>
   (py_error + Subscriber) \<times> request list" where
  "get_subscriber_info session_request self app_user_id =
     (let path = ''/subscribers/'' @ app_user_id;
          key = (if secret_key self \<noteq> None \<and> secret_key self \<noteq> Some []
                 then ''secret'' else ''public'')
      in and_then (make_request session_request self ''GET'' path PNone PNone (Some key) 5)
           (\<lambda>data. case py_getitem data ''subscriber'' of
                      Inl e \<Rightarrow> Inl e
                    | Inr sub \<Rightarrow> generate_subscriber_response sub))"

text \<open>
  \<open>datetime.strptime(x, "%Y-%m-%dT%H:%M:%SZ")\<close> is a parameter on strings; on anything
  but a \<open>str\<close> it raises \<open>TypeError\<close>.
\<close>

definition strptime_py :: "(string \<Rightarrow> py_error + datetime) \<Rightarrow> json \<Rightarrow> py_error + datetime" where
  "strptime_py strptime v = (case v of JStr s \<Rightarrow> strptime s | _ \<Rightarrow> Inl TypeError)"

definition is_user_subscribed ::
  "(request \<Rightarrow> transport_result) \<Rightarrow> (string \<Rightarrow> py_error + datetime) \<Rightarrow> datetime \<Rightarrow>
   Client \<Rightarrow> string \<Rightarrow> (py_error + bool) \<times> request list" where
  "is_user_subscribed session_request strptime now self app_user_id =
     and_then (get_subscriber_info session_request self app_user_id)
       (\<lambda>info.
          if truthy (subscriptions info) then
            (case py_iter (subscriptions info) of
               Inl e \<Rightarrow> Inl e
             | Inr it \<Rightarrow>
            (case py_next it of
               Inl e \<Rightarrow> Inl e
             | Inr first \<Rightarrow>
            (case getattr_expires_date first of
               Inl e \<Rightarrow> Inl e
             | Inr v \<Rightarrow>
            (case strptime_py strptime v of
               Inl e \<Rightarrow> Inl e
             | Inr expires_date \<Rightarrow> Inr (datetime_ge expires_date now)))))
          else Inr False)"

definition update_subscriber_attrs ::
  "(request \<Rightarrow> transport_result) \<Rightarrow> Client \<Rightarrow> string \<Rightarrow> (string \<times> SubscriberAttribute) list \<Rightarrow>
   (py_error + unit) \<times> request list" where
  "update_subscriber_attrs session_request self app_user_id attrs =
     (let path = ''/subscribers/'' @ app_user_id @ ''/attributes'';
          payload = PDict [(''attributes'', py_attributes attrs)]
      in and_then (make_request session_request self ''POST'' path payload PNone (Some ''public'') 5)
           (\<lambda>data. Inr ()))"

definition delete_subscriber ::
  "(request \<Rightarrow> transport_result) \<Rightarrow> Client \<Rightarrow> string \<Rightarrow> (py_error + json) \<times> request list" where
  "delete_subscriber session_request self app_user_id =
     (let path = ''/subscribers/'' @ app_user_id
      in and_then (make_request session_request self ''DELETE'' path PNone PNone (Some ''secret'') 5)
           (\<lambda>data. py_getitem data ''app_user_id''))"

text \<open>The payload of \<open>create_purchase\<close>, in the order the source writes the keys.\<close>

definition create_purchase_payload ::
  "string \<Rightarrow> string \<Rightarrow> string option \<Rightarrow> pyfloat option \<Rightarrow> string option \<Rightarrow> PaymentMode option \<Rightarrow>
   pyfloat option \<Rightarrow> bool \<Rightarrow> string option \<Rightarrow> (string \<times> SubscriberAttribute) list option \<Rightarrow> pyval" where
  "create_purchase_payload app_user_id fetch_token product_id price currency payment_mode
     introductory_price is_restore presented_offering_identifier attributes =
     PDict [(''app_user_id'', PStr app_user_id),
            (''fetch_token'', PStr fetch_token),
            (''product_id'', py_opt PStr product_id),
            (''price'', py_opt PFloat price),
            (''currency'', py_opt PStr currency),
            (''payment_mode'', py_opt PPaymentMode payment_mode),
            (''introductory_price'', py_opt PFloat introductory_price),
            (''is_restore'', PStr (str_lower_bool is_restore)),
            (''presented_offering_identifier'', py_opt PStr presented_offering_identifier),
            (''attributes'', py_opt py_attributes attributes)]"

definition create_purchase ::
  "(request \<Rightarrow> transport_result) \<Rightarrow> Client \<Rightarrow> string \<Rightarrow> Platform \<Rightarrow> string \<Rightarrow> string option \<Rightarrow>
   pyfloat option \<Rightarrow> string option \<Rightarrow> PaymentMode option \<Rightarrow> pyfloat option \<Rightarrow> bool \<Rightarrow>
   string option \<Rightarrow> (string \<times> SubscriberAttribute) list option \<Rightarrow>
   (py_error + Subscriber) \<times> request list" where
  "create_purchase session_request self app_user_id platform fetch_token product_id price
     currency payment_mode introductory_price is_restore presented_offering_identifier
     attributes =
     (let path = ''/receipts'';
          payload = create_purchase_payload app_user_id fetch_token product_id price currency
                      payment_mode introductory_price is_restore
                      presented_offering_identifier attributes
      in and_then (make_request session_request self ''POST'' path payload (PPlatform platform)
                     (Some ''public'') 5)
           generate_subscriber_response)"

text \<open>
  The path of \<open>grant_promotional_entitlement\<close> is a triple-quoted f-string that opens
  with a line break and eight spaces and closes with the same.
\<close>

definition promotional_path :: "string \<Rightarrow> string \<Rightarrow> string" where
  "promotional_path app_user_id entitlement_identifier =
     CHR 0x0A # ''        /subscribers/'' @ app_user_id @ ''/entitlements/''
       @ entitlement_identifier @ ''/promotional'' @ CHR 0x0A # ''        ''"

definition grant_promotional_entitlement ::
  "(request \<Rightarrow> transport_result) \<Rightarrow> (datetime \<Rightarrow> pyfloat) \<Rightarrow> (pyfloat \<Rightarrow> pyfloat \<Rightarrow> pyfloat) \<Rightarrow>
   Client \<Rightarrow> string \<Rightarrow> string \<Rightarrow> PromotionDuration \<Rightarrow> datetime \<Rightarrow>
   (py_error + Subscriber) \<times> request list" where
  "grant_promotional_entitlement session_request timestamp float_mul self app_user_id
     entitlement_identifier duration start_time =
     (let path = promotional_path app_user_id entitlement_identifier;
          start_time_ms = to_timestamp timestamp float_mul start_time;
          payload = PDict [(''duration'', PPromotionDuration duration),
                           (''start_time_ms'', PFloat start_time_ms)]
      in and_then (make_request session_request self ''POST'' path payload PNone (Some ''secret'') 5)
           generate_subscriber_response)"

definition revoke_promotionals_path :: "string \<Rightarrow> string \<Rightarrow> string" where
  "revoke_promotionals_path app_user_id entitlement_identifier =
     CHR 0x0A # ''        /subscribers/'' @ app_user_id @ ''/entitlements/''
       @ entitlement_identifier @ ''/revoke_promotionals'' @ CHR 0x0A # ''        ''"

definition revoke_promotinal_entitlements ::
  "(request \<Rightarrow> transport_result) \<Rightarrow> Client \<Rightarrow> string \<Rightarrow> string \<Rightarrow>
   (py_error + Subscriber) \<times> request list" where
  "revoke_promotinal_entitlements session_request self app_user_id entitlement_identifier =
     (let path = revoke_promotionals_path app_user_id entitlement_identifier
      in and_then (make_request session_request self ''POST'' path PNone PNone (Some ''secret'') 5)
           generate_subscriber_response)"

definition revoke_google_subscription ::
  "(request \<Rightarrow> transport_result) \<Rightarrow> Client \<Rightarrow> string \<Rightarrow> string \<Rightarrow>
   (py_error + Subscriber) \<times> request list" where
  "revoke_google_subscription session_request self app_user_id product_identifier =
     (let path = ''/subscribers/'' @ app_user_id @ ''/subscriptions/'' @ product_identifier
                   @ ''/revoke''
      in and_then (make_request session_request self ''POST'' path PNone PNone (Some ''secret'') 5)
           generate_subscriber_response)"

definition defer_google_subscription ::
  "(request \<Rightarrow> transport_result) \<Rightarrow> (datetime \<Rightarrow> pyfloat) \<Rightarrow> (pyfloat \<Rightarrow> pyfloat \<Rightarrow> pyfloat) \<Rightarrow>
   Client \<Rightarrow> string \<Rightarrow> string \<Rightarrow> datetime \<Rightarrow> (py_error + Subscriber) \<times> request list" where
  "defer_google_subscription session_request timestamp float_mul self app_user_id
     product_identifier expiry_time =
     (let path = ''/subscribers/'' @ app_user_id @ ''/subscriptions/'' @ product_identifier
                   @ ''/defer'';
          expiry_time_ms = to_timestamp timestamp float_mul expiry_time;
          payload = PDict [(''expiry_time_ms'', PFloat expiry_time_ms)]
      in and_then (make_request session_request self ''POST'' path payload PNone (Some ''secret'') 5)
           generate_subscriber_response)"

definition refund_google_subscription ::
  "(request \<Rightarrow> transport_result) \<Rightarrow> Client \<Rightarrow> string \<Rightarrow> string \<Rightarrow>
   (py_error + Subscriber) \<times> request list" where
  "refund_google_subscription session_request self app_user_id product_identifier =
     (let path = ''/subscribers/'' @ app_user_id @ ''/subscriptions/'' @ product_identifier
                   @ ''/refund''
      in and_then (make_request session_request self ''POST'' path PNone PNone (Some ''secret'') 5)
           generate_subscriber_response)"

text \<open>\<open>add_user_attribution\<close> sends no payload; its path has no leading slash.\<close>

definition add_user_attribution ::
  "(request \<Rightarrow> transport_result) \<Rightarrow> Client \<Rightarrow> string \<Rightarrow> AttributionSource \<Rightarrow> string option \<Rightarrow>
   string option \<Rightarrow> (py_error + unit) \<times> request list" where
  "add_user_attribution session_request self app_user_id network rc_idfa rc_gps_adid =
     (let path = ''subscribers/'' @ app_user_id @ ''/attribution''
      in and_then (make_request session_request self ''POST'' path PNone PNone (Some ''public'') 5)
           (\<lambda>data. Inr ()))"

text \<open>\<open>get_offerings\<close> ends with \<open>return self.get_offerings_response(data)\<close>.\<close>

definition get_offerings ::
  "(request \<Rightarrow> transport_result) \<Rightarrow> Client \<Rightarrow> string \<Rightarrow> Platform \<Rightarrow>
   (py_error + Offerings) \<times> request list" where
  "get_offerings session_request self app_user_id platform =
     (let path = ''subscribers/'' @ app_user_id @ ''/offerings''
      in and_then (make_request session_request self ''GET'' path PNone (PPlatform platform)
                     (Some ''public'') 5)
           (Client_offerings_method ''get_offerings_response''))"

definition override_current_offering ::
  "(request \<Rightarrow> transport_result) \<Rightarrow> Client \<Rightarrow> string \<Rightarrow> string \<Rightarrow>
   (py_error + Subscriber) \<times> request list" where
  "override_current_offering session_request self app_user_id offering_uuid =
     (let path = ''/subscribers/'' @ app_user_id @ ''/offerings/'' @ offering_uuid @ ''/override''
      in and_then (make_request session_request self ''POST'' path PNone PNone (Some ''secret'') 5)
           generate_subscriber_response)"

definition delete_current_offering_override ::
  "(request \<Rightarrow> transport_result) \<Rightarrow> Client \<Rightarrow> string \<Rightarrow> (py_error + Subscriber) \<times> request list" where
  "delete_current_offering_override session_request self app_user_id =
     (let path = ''/subscribers/'' @ app_user_id @ ''/offerings/override''
      in and_then (make_request session_request self ''DELETE'' path PNone PNone (Some ''secret'') 5)
           generate_subscriber_response)"

section \<open>Response bodies used as test inputs\<close>

definition subscriber_fixture :: json where
  "subscriber_fixture =
     JObj [(''original_app_user_id'', JStr ''u1''),
           (''original_application_version'', JNull),
           (''first_seen'', JStr ''2024-01-01T00:00:00Z''),
           (''last_seen'', JStr ''2024-06-01T00:00:00Z''),
           (''management_url'', JNull),
           (''original_purchase_date'', JNull),
           (''other_purchases'', JObj []),
           (''entitlements'',
              JObj [(''pro'',
                     JObj [(''expires_date'', JStr ''2999-01-01T00:00:00Z''),
                           (''purchase_date'', JStr ''2024-01-01T00:00:00Z''),
                           (''product_identifier'', JStr ''monthly'')])]),
           (''subscriptions'',
              JObj [(''monthly'',
                     JObj [(''expires_date'', JStr ''2999-01-01T00:00:00Z''),
                           (''purchase_date'', JStr ''2024-01-01T00:00:00Z''),
                           (''store'', JStr ''app_store'')])]),
           (''non_subscriptions'', JObj [])]"

definition offerings_fixture :: json where
  "offerings_fixture =
     JObj [(''current_offering_id'', JStr ''default''),
           (''offerings'',
              JArr [JObj [(''description'', JStr ''standard''),
                          (''identifier'', JStr ''default''),
                          (''packages'',
                             JArr [JObj [(''identifier'', JStr ''m''),
                                         (''platform_product_identifier'', JStr ''monthly'')]])],
                    JObj [(''description'', JStr ''sale''),
                          (''identifier'', JStr ''promo''),
                          (''packages'',
                             JArr [JObj [(''identifier'', JStr ''y''),
                                         (''platform_product_identifier'', JStr ''annual'')]])]])]"

section \<open>Properties of the enumerations\<close>

lemma enum_call_unknown: "s \<notin> val ` set ms \<Longrightarrow> enum_call val ms s = Inl ValueError"
  by (induction ms) auto

lemma Platform_round: "Platform_call (Platform_value p) = Inr p"
  by (cases p) (simp_all add: Platform_call_def Platform_members_def)

lemma PromotionDuration_round: "PromotionDuration_call (PromotionDuration_value d) = Inr d"
  by (cases d) (simp_all add: PromotionDuration_call_def PromotionDuration_members_def)

lemma Store_round: "Store_call (Store_value s) = Inr s"
  by (cases s) (simp_all add: Store_call_def Store_members_def)

text \<open>
  Claim C7. For every member of \<open>Platform\<close>, \<open>PromotionDuration\<close> and \<open>Store\<close>, taking
  the member's wire string and calling the class on it gives the member back; calling the
  class on a string that is not the value of a member raises \<open>ValueError\<close>, so only an
  exact match decodes.
\<close>

theorem enum_round_trip:
  "Platform_call (Platform_value p) = Inr p \<and>
   PromotionDuration_call (PromotionDuration_value d) = Inr d \<and>
   Store_call (Store_value s) = Inr s \<and>
   (w \<notin> Platform_value ` set Platform_members \<longrightarrow> Platform_call w = Inl ValueError) \<and>
   (w \<notin> PromotionDuration_value ` set PromotionDuration_members \<longrightarrow>
      PromotionDuration_call w = Inl ValueError) \<and>
   (w \<notin> Store_value ` set Store_members \<longrightarrow> Store_call w = Inl ValueError)"
  using enum_call_unknown [of w Platform_value Platform_members]
    enum_call_unknown [of w PromotionDuration_value PromotionDuration_members]
    enum_call_unknown [of w Store_value Store_members]
  by (simp add: Platform_round PromotionDuration_round Store_round)
     (simp add: Platform_call_def PromotionDuration_call_def Store_call_def)

theorem enum_round_trip_witness:
  "''IOS'' \<notin> Platform_value ` set Platform_members \<and>
   ''IOS'' \<notin> PromotionDuration_value ` set PromotionDuration_members \<and>
   ''IOS'' \<notin> Store_value ` set Store_members \<and>
   Platform_call (Platform_value IOS) = Inr IOS \<and>
   PromotionDuration_call (PromotionDuration_value DAILY) = Inr DAILY \<and>
   Store_call (Store_value STRIPE) = Inr STRIPE \<and>
   Platform_call ''IOS'' = Inl ValueError \<and>
   PromotionDuration_call ''IOS'' = Inl ValueError \<and>
   Store_call ''IOS'' = Inl ValueError"
  using enum_round_trip [of IOS DAILY STRIPE "''IOS''"]
  by (simp add: Platform_members_def PromotionDuration_members_def Store_members_def)

section \<open>Properties of \<open>encode\<close>\<close>

lemma hex_value_hex_digit: "n < 16 \<Longrightarrow> hex_value (hex_digit n) = Some n"
  by (auto simp: hex_value_def hex_digit_def Let_def)

lemma always_safe_not_percent: "always_safe c \<Longrightarrow> c \<noteq> CHR ''%''"
  by (auto simp: always_safe_def)

lemma unquote_quote_byte: "unquote (quote_byte ''/'' c @ r) = c # unquote r"
proof (cases "always_safe c \<or> c = CHR ''/''")
  case True
  then have "c \<noteq> CHR ''%''"
    using always_safe_not_percent by auto
  with True show ?thesis
    by (auto simp: quote_byte_def)
next
  case False
  have hi: "(of_char c :: nat) div 16 < 16"
    by (simp add: less_mult_imp_div_less)
  have lo: "(of_char c :: nat) mod 16 < 16"
    by simp
  from False show ?thesis
    by (simp add: quote_byte_def hex_value_hex_digit [OF hi] hex_value_hex_digit [OF lo])
qed

lemma unquote_encode: "unquote (encode s) = s"
  by (induction s) (simp_all add: encode_def quote_def unquote_quote_byte)

lemma encode_append: "encode (a @ b) = encode a @ encode b"
  by (simp add: encode_def quote_def)

lemma hex_digits_safe: "list_all (\<lambda>n. always_safe (hex_digit n)) [0..<16]"
  by code_simp

lemma hex_digit_safe: "n < 16 \<Longrightarrow> always_safe (hex_digit n)"
  using hex_digits_safe by (simp add: list_all_iff)

lemma quote_byte_chars:
  assumes "x \<in> set (quote_byte ''/'' c)"
  shows "always_safe x \<or> x = CHR ''/'' \<or> x = CHR ''%''"
proof -
  have hi: "(of_char c :: nat) div 16 < 16"
    by (simp add: less_mult_imp_div_less)
  have lo: "(of_char c :: nat) mod 16 < 16"
    by simp
  from assms show ?thesis
    using hex_digit_safe [OF hi] hex_digit_safe [OF lo]
    by (auto simp: quote_byte_def split: if_splits)
qed

lemma encode_chars:
  "x \<in> set (encode s) \<Longrightarrow> always_safe x \<or> x = CHR ''/'' \<or> x = CHR ''%''"
  by (auto simp: encode_def quote_def dest: quote_byte_chars)

lemma make_request_url:
  "r \<in> set (snd (make_request session_request self method path payload platform key timeout))
   \<Longrightarrow> req_url r = base_api_url @ encode path"
  by (auto simp: make_request_def Let_def split: sum.splits option.splits if_splits)

text \<open>
  Claim C2, as stated, fails: \<open>quote\<close> keeps \<open>/\<close>, so the separator inside the app-user
  ID \<open>a/b\<close> reaches the URL unescaped, and the request for that subscriber goes to
  \<open>/subscribers/a/b\<close>.
\<close>

theorem encode_keeps_slash_counterexample:
  "CHR ''/'' \<in> set (encode ''a/b'') \<and>
   map req_url
     (snd (get_subscriber_info (\<lambda>r. RaisedTimeout)
             \<lparr>public_key = Some ''pk'', secret_key = None\<rparr> ''a/b'')) =
     [''https://api.revenuecat.com/v1/subscribers/a/b'']"
  by (simp add: get_subscriber_info_def make_request_def and_then_def dict_update_def
      base_api_url_def encode_def quote_def quote_byte_def always_safe_def Let_def)

text \<open>
  Claim C2, amended. Every request that \<open>make_request\<close> sends for a path
  \<open>pre + uid + suf\<close> has the URL \<open>base + encode pre + encode uid + encode suf\<close>; the
  encoded ID consists of unreserved characters, \<open>/\<close> and \<open>%\<close> only, that is, every
  character of the ID other than an unreserved one and \<open>/\<close> is percent-encoded; and
  decoding the encoded ID gives back exactly the ID.
\<close>

theorem request_path_round_trip:
  assumes "r \<in> set (snd (make_request session_request self method (pre @ uid @ suf)
                           payload platform key timeout))"
  shows "req_url r = base_api_url @ encode pre @ encode uid @ encode suf \<and>
         (\<forall>c \<in> set (encode uid). always_safe c \<or> c = CHR ''/'' \<or> c = CHR ''%'') \<and>
         unquote (encode uid) = uid"
  using make_request_url [OF assms] encode_chars [of _ uid]
  by (auto simp: encode_append unquote_encode)

theorem request_path_round_trip_witness:
  "\<lparr>req_method = ''GET'',
     req_url = ''https://api.revenuecat.com/v1/subscribers/a%20b/c%25'',
     req_headers = [(''Authorization'', PStr ''Bearer pk'')],
     req_data = None, req_timeout = 5\<rparr>
     \<in> set (snd (make_request (\<lambda>r. RaisedTimeout) \<lparr>public_key = Some ''pk'', secret_key = None\<rparr>
                   ''GET'' (''/subscribers/'' @ ''a b/c%'' @ []) PNone PNone (Some ''public'') 5)) \<and>
   ''https://api.revenuecat.com/v1/subscribers/a%20b/c%25'' =
     base_api_url @ encode ''/subscribers/'' @ encode ''a b/c%'' @ encode [] \<and>
   encode ''a b/c%'' = ''a%20b/c%25'' \<and>
   unquote (encode ''a b/c%'') = ''a b/c%''"
proof -
  let ?r = "\<lparr>req_method = ''GET'',
     req_url = ''https://api.revenuecat.com/v1/subscribers/a%20b/c%25'',
     req_headers = [(''Authorization'', PStr ''Bearer pk'')],
     req_data = None, req_timeout = 5\<rparr>"
  have sent: "?r \<in> set (snd (make_request (\<lambda>r. RaisedTimeout)
                   \<lparr>public_key = Some ''pk'', secret_key = None\<rparr>
                   ''GET'' (''/subscribers/'' @ ''a b/c%'' @ []) PNone PNone (Some ''public'') 5))"
    by code_simp
  have enc: "encode ''a b/c%'' = ''a%20b/c%25''"
    by code_simp
  from request_path_round_trip [OF sent] sent enc show ?thesis
    by simp
qed

section \<open>Properties of \<open>make_request\<close>\<close>







section \<open>The key tier\<close>

text \<open>
  The check of the key comes after \<open>json.dumps(payload)\<close> and before the \<open>try\<close>: with a
  payload that serialises (or none), a call that names a key tier whose key is \<open>None\<close>
  raises the plain \<open>Exception\<close> of the source and sends nothing.
\<close>

lemma make_request_missing_key:
  assumes "(if k = ''public'' then public_key self else secret_key self) = None"
    and "payload = PNone \<or> (\<exists>b. json_dumps payload = Inr b)"
  shows "make_request session_request self method path payload platform (Some k) timeout =
           (Inl (PyException (''This functionality requires '' @ k @ '' key to be set'')), [])"
  using assms by (auto simp: make_request_def Let_def)

lemma secret_operations_need_secret_key:
  assumes "secret_key self = None"
  shows "delete_subscriber session_request self uid =
           (Inl (PyException ''This functionality requires secret key to be set''), [])"
    and "revoke_promotinal_entitlements session_request self uid eid =
           (Inl (PyException ''This functionality requires secret key to be set''), [])"
    and "revoke_google_subscription session_request self uid pid =
           (Inl (PyException ''This functionality requires secret key to be set''), [])"
    and "defer_google_subscription session_request timestamp float_mul self uid pid t =
           (Inl (PyException ''This functionality requires secret key to be set''), [])"
    and "refund_google_subscription session_request self uid pid =
           (Inl (PyException ''This functionality requires secret key to be set''), [])"
    and "override_current_offering session_request self uid oid =
           (Inl (PyException ''This functionality requires secret key to be set''), [])"
    and "delete_current_offering_override session_request self uid =
           (Inl (PyException ''This functionality requires secret key to be set''), [])"
  using assms
  by (simp_all add: delete_subscriber_def revoke_promotinal_entitlements_def
      revoke_google_subscription_def defer_google_subscription_def
      refund_google_subscription_def override_current_offering_def
      delete_current_offering_override_def and_then_def Let_def
      make_request_missing_key [where k = "''secret''", simplified])

lemma grant_payload_not_serialisable:
  "json_dumps (PDict [(''duration'', PPromotionDuration d), (''start_time_ms'', PFloat f)]) =
     Inl TypeError"
  by simp

text \<open>
  Claim C3, at the input where the code breaks it: \<open>grant_promotional_entitlement\<close> is a
  secret-key operation, and on a client that holds only a public key it raises the
  \<open>TypeError\<close> of \<open>json.dumps\<close> (the payload holds a \<open>PromotionDuration\<close> member), not
  the error of the missing key; \<open>delete_subscriber\<close> on the same client raises that one.
  Neither sends a request.
\<close>

theorem grant_promotional_without_secret_key:
  "grant_promotional_entitlement (\<lambda>r. RaisedOther) (\<lambda>d. PyFloat 0 0) (\<lambda>a b. a)
     \<lparr>public_key = Some ''pk'', secret_key = None\<rparr> ''u1'' ''pro'' MONTHLY
     \<lparr>year = 2024, month = 1, day = 1, hour = 0, minute = 0, second = 0, microsecond = 0\<rparr> =
     (Inl TypeError, []) \<and>
   delete_subscriber (\<lambda>r. RaisedOther) \<lparr>public_key = Some ''pk'', secret_key = None\<rparr> ''u1'' =
     (Inl (PyException ''This functionality requires secret key to be set''), [])"
  by (simp add: grant_promotional_entitlement_def delete_subscriber_def make_request_def
      and_then_def Let_def)

text \<open>
  Claim C8, where the code breaks it: for every client, identifier, duration and start
  time, \<open>grant_promotional_entitlement\<close> raises \<open>TypeError\<close> while serialising the
  payload and sends no request; and the URL it had built carries the line break and the
  indentation of the f-string, percent-encoded, on both sides of the path.
\<close>

theorem grant_promotional_entitlement_raises:
  "grant_promotional_entitlement session_request timestamp float_mul self app_user_id
     entitlement_identifier duration start_time = (Inl TypeError, []) \<and>
   base_api_url @ encode (promotional_path ''u1'' ''pro'') =
     ''https://api.revenuecat.com/v1%0A%20%20%20%20%20%20%20%20/subscribers/u1/entitlements/pro/promotional%0A%20%20%20%20%20%20%20%20''"
proof -
  have url: "base_api_url @ encode (promotional_path ''u1'' ''pro'') =
     ''https://api.revenuecat.com/v1%0A%20%20%20%20%20%20%20%20/subscribers/u1/entitlements/pro/promotional%0A%20%20%20%20%20%20%20%20''"
    by code_simp
  show ?thesis
    using url
    by (simp add: grant_promotional_entitlement_def make_request_def and_then_def Let_def)
qed

section \<open>Properties of the response mapping\<close>

lemma generate_subscriber_response_raw:
  assumes "generate_subscriber_response (JObj kw) = Inr s"
  shows "entitlements s = kwarg kw ''entitlements''"
    and "subscriptions s = kwarg kw ''subscriptions''"
    and "non_subscriptions s = kwarg kw ''non_subscriptions''"
    and "subscriber_attributes s = kwarg kw ''subscriber_attributes''"
  using assms by (auto simp: generate_subscriber_response_def split: if_splits)

text \<open>
  Claim C5, where the code breaks it: \<open>Subscriber(**data)\<close> stores the nested maps as
  they were parsed. For the body \<open>subscriber_fixture\<close> the fields \<open>entitlements\<close> and
  \<open>subscriptions\<close> of the result are the JSON objects of the body, each entry still an
  object of strings under its key, not an \<open>Entitlement\<close> or a \<open>Subscription\<close>.
\<close>

theorem generate_subscriber_response_keeps_raw_maps:
  "map_sum id entitlements (generate_subscriber_response subscriber_fixture) =
     Inr (JObj [(''pro'',
                 JObj [(''expires_date'', JStr ''2999-01-01T00:00:00Z''),
                       (''purchase_date'', JStr ''2024-01-01T00:00:00Z''),
                       (''product_identifier'', JStr ''monthly'')])]) \<and>
   map_sum id subscriptions (generate_subscriber_response subscriber_fixture) =
     Inr (JObj [(''monthly'',
                 JObj [(''expires_date'', JStr ''2999-01-01T00:00:00Z''),
                       (''purchase_date'', JStr ''2024-01-01T00:00:00Z''),
                       (''store'', JStr ''app_store'')])])"
  by code_simp

text \<open>
  Whatever \<open>data["offerings"]\<close> is, one round of the outer loop fails: a list or a string
  cannot be indexed with \<open>"packages"\<close>, and a \<open>dict\<close> yields its keys, which are not
  mappings for \<open>Offering(**o, ...)\<close>.
\<close>

lemma offerings_loop_fails:
  assumes "py_getitem data ''offerings'' = Inr offs" and "py_iter offs = Inr (x # xs)"
  shows "\<exists>e. offerings_loop data (x # xs) = Inl e"
proof (cases offs)
  case (JObj kvs)
  with assms(2) obtain k where "x = JStr k"
    by (cases kvs) auto
  then show ?thesis
    using assms(1) by (auto simp: Offering_new_def split: sum.splits)
qed (use assms in auto)

lemma generate_offerings_response_empty:
  assumes "generate_offerings_response data = Inr r"
  shows "offerings r = []"
proof -
  from assms obtain offs items os cur where
    a: "py_getitem data ''offerings'' = Inr offs" and b: "py_iter offs = Inr items"
    and c: "offerings_loop data items = Inr os" and r: "r = \<lparr>current_offering_id = cur, offerings = os\<rparr>"
    by (auto simp: generate_offerings_response_def split: sum.splits)
  have "items = []"
  proof (cases items)
    case (Cons x xs)
    with offerings_loop_fails [OF a] b c show ?thesis
      by fastforce
  qed simp
  with c r show ?thesis
    by simp
qed

lemma get_offerings_never_returns:
  "fst (get_offerings session_request self app_user_id platform) \<noteq> Inr x"
  by (simp add: get_offerings_def and_then_def Client_offerings_method_def Let_def
      split: sum.splits)

text \<open>
  Claim C4, where the code breaks it: on a 200 response carrying \<open>offerings_fixture\<close>
  (two offerings, each with its own package), \<open>get_offerings\<close> raises
  \<open>AttributeError\<close>, because it calls a method \<open>get_offerings_response\<close> that the
  class does not have; and \<open>generate_offerings_response\<close>, called on that body, raises
  \<open>TypeError\<close>, because it indexes the list of offerings with \<open>"packages"\<close>.
\<close>

theorem get_offerings_raises:
  "fst (get_offerings (\<lambda>r. Returned \<lparr>status_code = 200, json_body = Some offerings_fixture\<rparr>)
          \<lparr>public_key = Some ''pk'', secret_key = None\<rparr> ''u1'' IOS) = Inl AttributeError \<and>
   generate_offerings_response offerings_fixture = Inl TypeError"
  by code_simp

section \<open>Properties of \<open>is_user_subscribed\<close>\<close>

lemma is_user_subscribed_empty:
  assumes "get_subscriber_info session_request self uid = (Inr info, log)"
    and "subscriptions info = JObj []"
  shows "is_user_subscribed session_request strptime now self uid = (Inr False, log)"
  using assms by (simp add: is_user_subscribed_def and_then_def)

text \<open>
  Claim C1, where the code breaks it: when the subscriber has any subscription at all,
  \<open>next(iter(info.subscriptions))\<close> is the first key of the \<open>dict\<close>, a \<open>str\<close>, and
  reading its \<open>expires_date\<close> raises \<open>AttributeError\<close>. So \<open>is_user_subscribed\<close>
  returns neither true nor false, whatever the expiry dates are.
\<close>

theorem is_user_subscribed_raises:
  assumes "get_subscriber_info session_request self uid = (Inr info, log)"
    and "subscriptions info = JObj (kv # kvs)"
  shows "is_user_subscribed session_request strptime now self uid = (Inl AttributeError, log)"
  using assms by (simp add: is_user_subscribed_def and_then_def)

theorem is_user_subscribed_raises_witness:
  "\<not> isl (fst (get_subscriber_info
      (\<lambda>r. Returned \<lparr>status_code = 200,
                      json_body = Some (JObj [(''subscriber'', subscriber_fixture)])\<rparr>)
      \<lparr>public_key = Some ''pk'', secret_key = None\<rparr> ''u1'')) \<and>
   subscriptions (projr (fst (get_subscriber_info
      (\<lambda>r. Returned \<lparr>status_code = 200,
                      json_body = Some (JObj [(''subscriber'', subscriber_fixture)])\<rparr>)
      \<lparr>public_key = Some ''pk'', secret_key = None\<rparr> ''u1''))) =
     JObj [(''monthly'',
            JObj [(''expires_date'', JStr ''2999-01-01T00:00:00Z''),
                  (''purchase_date'', JStr ''2024-01-01T00:00:00Z''),
                  (''store'', JStr ''app_store'')])] \<and>
   is_user_subscribed
      (\<lambda>r. Returned \<lparr>status_code = 200,
                      json_body = Some (JObj [(''subscriber'', subscriber_fixture)])\<rparr>)
      (\<lambda>s. Inr \<lparr>year = 2999, month = 1, day = 1, hour = 0, minute = 0, second = 0,
                 microsecond = 0\<rparr>)
      \<lparr>year = 2024, month = 6, day = 1, hour = 0, minute = 0, second = 0, microsecond = 0\<rparr>
      \<lparr>public_key = Some ''pk'', secret_key = None\<rparr> ''u1'' =
     (Inl AttributeError,
      [\<lparr>req_method = ''GET'', req_url = ''https://api.revenuecat.com/v1/subscribers/u1'',
        req_headers = [(''Authorization'', PStr ''Bearer pk'')],
        req_data = None, req_timeout = 5\<rparr>])"
proof -
  let ?g = "get_subscriber_info
      (\<lambda>r. Returned \<lparr>status_code = 200,
                      json_body = Some (JObj [(''subscriber'', subscriber_fixture)])\<rparr>)
      \<lparr>public_key = Some ''pk'', secret_key = None\<rparr> ''u1''"
  have ok: "\<not> isl (fst ?g)"
    by code_simp
  then have run: "?g = (Inr (projr (fst ?g)), snd ?g)"
    by (cases ?g; cases "fst ?g") auto
  have subs: "subscriptions (projr (fst ?g)) =
     JObj ((''monthly'',
            JObj [(''expires_date'', JStr ''2999-01-01T00:00:00Z''),
                  (''purchase_date'', JStr ''2024-01-01T00:00:00Z''),
                  (''store'', JStr ''app_store'')]) # [])"
    by code_simp
  have log: "snd ?g =
      [\<lparr>req_method = ''GET'', req_url = ''https://api.revenuecat.com/v1/subscribers/u1'',
        req_headers = [(''Authorization'', PStr ''Bearer pk'')],
        req_data = None, req_timeout = 5\<rparr>]"
    by code_simp
  from is_user_subscribed_raises [OF run subs] ok subs log show ?thesis
    by simp
qed

section \<open>Properties of \<open>create_purchase\<close>\<close>

lemma collect_Inr: "collect (map Inr xs) = Inr xs"
  by (induction xs) simp_all

lemma zip_attributes:
  "zip (map fst (map (\<lambda>kv. (fst kv, py_attribute (snd kv))) attrs))
       (map (\<lambda>kv. JArr [JStr (attr_value (snd kv)), JInt (updated_at_ms (snd kv))]) attrs) =
   map (\<lambda>kv. (fst kv, JArr [JStr (attr_value (snd kv)), JInt (updated_at_ms (snd kv))])) attrs"
  by (induction attrs) simp_all

lemma json_dumps_attributes:
  "json_dumps (py_attributes attrs) =
     Inr (JObj (map (\<lambda>kv. (fst kv, JArr [JStr (attr_value (snd kv)), JInt (updated_at_ms (snd kv))]))
            attrs))"
proof -
  have "map (\<lambda>kv. json_dumps (snd kv)) (map (\<lambda>kv. (fst kv, py_attribute (snd kv))) attrs) =
        map Inr (map (\<lambda>kv. JArr [JStr (attr_value (snd kv)), JInt (updated_at_ms (snd kv))]) attrs)"
    by (simp add: py_attribute_def)
  then show ?thesis
    by (simp add: py_attributes_def collect_Inr zip_attributes del: map_map)
qed

lemma json_dumps_py_opt:
  assumes "\<And>v. json_dumps (f v) = Inr (g v)"
  shows "json_dumps (py_opt f x) = Inr (case x of None \<Rightarrow> JNull | Some v \<Rightarrow> g v)"
  using assms by (cases x) (simp_all add: py_opt_def)

lemma create_purchase_payload_dumps:
  "json_dumps (create_purchase_payload app_user_id fetch_token product_id price currency None
     introductory_price is_restore presented_offering_identifier attributes) =
   Inr (JObj
     [(''app_user_id'', JStr app_user_id),
      (''fetch_token'', JStr fetch_token),
      (''product_id'', case product_id of None \<Rightarrow> JNull | Some v \<Rightarrow> JStr v),
      (''price'', case price of None \<Rightarrow> JNull | Some v \<Rightarrow> JFloat v),
      (''currency'', case currency of None \<Rightarrow> JNull | Some v \<Rightarrow> JStr v),
      (''payment_mode'', JNull),
      (''introductory_price'', case introductory_price of None \<Rightarrow> JNull | Some v \<Rightarrow> JFloat v),
      (''is_restore'', JStr (str_lower_bool is_restore)),
      (''presented_offering_identifier'',
         case presented_offering_identifier of None \<Rightarrow> JNull | Some v \<Rightarrow> JStr v),
      (''attributes'',
         case attributes of
           None \<Rightarrow> JNull
         | Some a \<Rightarrow>
             JObj (map (\<lambda>kv. (fst kv, JArr [JStr (attr_value (snd kv)),
                                             JInt (updated_at_ms (snd kv))])) a))])"
  by (simp add: create_purchase_payload_def json_dumps_py_opt [where f = PStr and g = JStr]
      json_dumps_py_opt [where f = PFloat and g = JFloat]
      json_dumps_py_opt [OF json_dumps_attributes] py_opt_def [of PPaymentMode])

lemma create_purchase_payload_enum:
  "json_dumps (create_purchase_payload app_user_id fetch_token product_id price currency
     (Some m) introductory_price is_restore presented_offering_identifier attributes) =
   Inl TypeError"
  by (simp add: create_purchase_payload_def json_dumps_py_opt [where f = PStr and g = JStr]
      json_dumps_py_opt [where f = PFloat and g = JFloat]
      json_dumps_py_opt [OF json_dumps_attributes] py_opt_def [of PPaymentMode])

lemma create_purchase_payload_not_None:
  "create_purchase_payload app_user_id fetch_token product_id price currency payment_mode
     introductory_price is_restore presented_offering_identifier attributes \<noteq> PNone"
  by (simp add: create_purchase_payload_def)

lemma snd_and_then: "snd (and_then r f) = snd r"
  by (simp add: and_then_def split: sum.splits)

lemma make_request_log:
  "snd (make_request session_request self method path payload platform (Some k) timeout) =
     (case (if payload \<noteq> PNone then map_sum id Some (json_dumps payload) else Inr None) of
        Inl e \<Rightarrow> []
      | Inr data \<Rightarrow>
          (case (if k = ''public'' then public_key self else secret_key self) of
             None \<Rightarrow> []
           | Some token \<Rightarrow>
               [\<lparr>req_method = method, req_url = base_api_url @ encode path,
                 req_headers =
                   dict_update
                     (if platform \<noteq> PNone then dict_update [] ''X-Platform'' platform else [])
                     ''Authorization'' (PStr (''Bearer '' @ token)),
                 req_data = data, req_timeout = timeout\<rparr>]))"
  by (simp add: make_request_def Let_def split: sum.splits option.splits)

text \<open>
  What holds of the requests that \<open>create_purchase\<close> does send: each carries a JSON
  object with the ten keys of the payload, and each of \<open>product_id\<close>, \<open>price\<close>,
  \<open>currency\<close>, \<open>payment_mode\<close>, \<open>introductory_price\<close>,
  \<open>presented_offering_identifier\<close> and \<open>attributes\<close> that was left at its default
  \<open>None\<close> is there with the value \<open>null\<close>. A call with \<open>payment_mode\<close> at its
  default on a client that has a public key does send its request.
\<close>

lemma create_purchase_sent_body:
  "(\<forall>r \<in> set (snd (create_purchase session_request self app_user_id platform fetch_token
                      product_id price currency payment_mode introductory_price is_restore
                      presented_offering_identifier attributes)).
      \<exists>kvs. req_data r = Some (JObj kvs) \<and>
        map fst kvs =
          [''app_user_id'', ''fetch_token'', ''product_id'', ''price'', ''currency'',
           ''payment_mode'', ''introductory_price'', ''is_restore'',
           ''presented_offering_identifier'', ''attributes''] \<and>
        (product_id = None \<longrightarrow> map_of kvs ''product_id'' = Some JNull) \<and>
        (price = None \<longrightarrow> map_of kvs ''price'' = Some JNull) \<and>
        (currency = None \<longrightarrow> map_of kvs ''currency'' = Some JNull) \<and>
        (payment_mode = None \<longrightarrow> map_of kvs ''payment_mode'' = Some JNull) \<and>
        (introductory_price = None \<longrightarrow> map_of kvs ''introductory_price'' = Some JNull) \<and>
        (presented_offering_identifier = None \<longrightarrow>
           map_of kvs ''presented_offering_identifier'' = Some JNull) \<and>
        (attributes = None \<longrightarrow> map_of kvs ''attributes'' = Some JNull)) \<and>
   (payment_mode = None \<and> public_key self \<noteq> None \<longrightarrow>
      length (snd (create_purchase session_request self app_user_id platform fetch_token
                     product_id price currency payment_mode introductory_price is_restore
                     presented_offering_identifier attributes)) = 1)"
proof (cases payment_mode)
  case (Some m)
  then show ?thesis
    by (simp add: create_purchase_def snd_and_then make_request_log Let_def
        create_purchase_payload_not_None create_purchase_payload_enum)
next
  case None
  show ?thesis
  proof (cases "public_key self")
    case no_key: None
    with None show ?thesis
      by (simp add: create_purchase_def snd_and_then make_request_log Let_def
          create_purchase_payload_not_None create_purchase_payload_dumps)
  next
    case (Some k)
    with None show ?thesis
      by (simp add: create_purchase_def snd_and_then make_request_log Let_def
          create_purchase_payload_not_None create_purchase_payload_dumps)
  qed
qed

lemma create_purchase_sent_body_example:
  "snd (create_purchase (\<lambda>r. RaisedTimeout) \<lparr>public_key = Some ''pk'', secret_key = None\<rparr>
          ''u1'' IOS ''tok'' None None None None None False None None) =
     [\<lparr>req_method = ''POST'', req_url = ''https://api.revenuecat.com/v1/receipts'',
       req_headers = [(''X-Platform'', PPlatform IOS), (''Authorization'', PStr ''Bearer pk'')],
       req_data =
         Some (JObj [(''app_user_id'', JStr ''u1''), (''fetch_token'', JStr ''tok''),
                     (''product_id'', JNull), (''price'', JNull), (''currency'', JNull),
                     (''payment_mode'', JNull), (''introductory_price'', JNull),
                     (''is_restore'', JStr ''false''),
                     (''presented_offering_identifier'', JNull), (''attributes'', JNull)]),
       req_timeout = 5\<rparr>] \<and>
   length (snd (create_purchase (\<lambda>r. RaisedTimeout) \<lparr>public_key = Some ''pk'', secret_key = None\<rparr>
          ''u1'' IOS ''tok'' None None None None None False None None)) = 1"
proof -
  have run: "snd (create_purchase (\<lambda>r. RaisedTimeout) \<lparr>public_key = Some ''pk'', secret_key = None\<rparr>
          ''u1'' IOS ''tok'' None None None None None False None None) =
     [\<lparr>req_method = ''POST'', req_url = ''https://api.revenuecat.com/v1/receipts'',
       req_headers = [(''X-Platform'', PPlatform IOS), (''Authorization'', PStr ''Bearer pk'')],
       req_data =
         Some (JObj [(''app_user_id'', JStr ''u1''), (''fetch_token'', JStr ''tok''),
                     (''product_id'', JNull), (''price'', JNull), (''currency'', JNull),
                     (''payment_mode'', JNull), (''introductory_price'', JNull),
                     (''is_restore'', JStr ''false''),
                     (''presented_offering_identifier'', JNull), (''attributes'', JNull)]),
       req_timeout = 5\<rparr>]"
    by code_simp
  from create_purchase_sent_body
         [of "\<lambda>r. RaisedTimeout" "\<lparr>public_key = Some ''pk'', secret_key = None\<rparr>"
             "''u1''" IOS "''tok''" None None None None None False None None]
       run
  show ?thesis
    by simp
qed

text \<open>
  Claim C10, where the code breaks it: a call of \<open>create_purchase\<close> that passes
  \<open>payment_mode\<close> (a \<open>PaymentMode\<close> member) and leaves other optional arguments at
  their default raises \<open>TypeError\<close> in \<open>json.dumps\<close>: no body is serialised, with or
  without the \<open>null\<close>s, and no request is sent.
\<close>

theorem create_purchase_payment_mode_raises:
  "create_purchase session_request self app_user_id platform fetch_token product_id price
     currency (Some m) introductory_price is_restore presented_offering_identifier
     attributes = (Inl TypeError, [])"
  by (simp add: create_purchase_def and_then_def make_request_def Let_def
      create_purchase_payload_not_None create_purchase_payload_enum)

section \<open>Properties of the epoch-millisecond values\<close>



end
